theory Spec2Isabelle
  imports Main
begin

section \<open>Commands and responses (commands.ts)\<close>

text \<open>
  The tagged union \<open>Command\<close> and the string union \<open>Response\<close>. A command's \<open>level\<close> is a
  JavaScript number; every command of the program is built by \<open>parseCommand\<close>, whose levels
  are integers, so the model takes \<open>int\<close>.
\<close>

datatype Command = INITIALIZE | SHUTDOWN | TL_INTENSITY int | SHUTTER_OPEN bool

datatype Response = OK | ERROR

section \<open>Session state (store.ts)\<close>

record State =
  shutterOpen :: bool
  intensity :: int

text \<open>Exceptions of the program: the three \<open>throw new Error(...)\<close> a command can meet.\<close>

datatype error = Timeout | PortUninitialized | WriteError string

datatype SerialPort = SerialPort string

text \<open>
  The module-level variables \<open>_port\<close>, \<open>_responseQueue\<close> (index.ts) and \<open>_state\<close> (store.ts),
  then what the program does to its surroundings and what they do to it:
  \<^item> \<open>wire\<close>: every line handed to \<open>_port.write\<close>, oldest first;
  \<^item> \<open>timers\<close>: the delay of every \<open>setTimeout\<close> call, oldest first;
  \<^item> \<open>writeFaults\<close>: the error, by its message, that the callback of each coming write
    receives (\<open>None\<close>: no error; none left: no error);
  \<^item> \<open>incoming\<close>: the lines the serial listener (the \<open>"data"\<close> handler registered by
    \<open>initialize\<close>) pushes on the queue at each coming suspension point of the program,
    one batch for each awaited write callback and each awaited timer; none left: silence;
  \<^item> \<open>unhandled\<close>: the rejections that reach no handler, oldest first.
  \<open>writeFaults\<close> and \<open>incoming\<close> are fixed in advance, so a world determines one run, and
  a statement about every world is a statement about every behaviour of the device.
  Commands run one after the other, as the program assumes. \<open>console.log\<close> is left out.
\<close>

record world =
  port :: "SerialPort option"
  responseQueue :: "string list"
  state :: State
  wire :: "string list"
  timers :: "int list"
  writeFaults :: "string option list"
  incoming :: "string list list"
  unhandled :: "error list"

definition initial_state :: State where
  "initial_state = \<lparr>shutterOpen = False, intensity = 0\<rparr>"

definition getState :: "world \<Rightarrow> State" where
  "getState w = state w"

definition store_setShutter :: "bool \<Rightarrow> world \<Rightarrow> world" where
  "store_setShutter st w = w\<lparr>state := (state w)\<lparr>shutterOpen := st\<rparr>\<rparr>"

definition store_setIntensity :: "int \<Rightarrow> world \<Rightarrow> world" where
  "store_setIntensity lvl w = w\<lparr>state := (state w)\<lparr>intensity := lvl\<rparr>\<rparr>"

section \<open>Strings of the JavaScript library\<close>

text \<open>
  A \<open>char\<close> is a code unit below 256 (the socket decodes ASCII, so real input is below
  128). White space for \<open>trim\<close> and \<open>parseInt\<close>: tab, line feed, vertical tab, form feed,
  carriage return, space and the no-break space.
\<close>

definition isWhiteSpace :: "char \<Rightarrow> bool" where
  "isWhiteSpace c \<longleftrightarrow>
     c \<in> set [CHR 0x09, CHR 0x0A, CHR 0x0B, CHR 0x0C, CHR 0x0D, CHR 0x20, CHR 0xA0]"

definition trim :: "string \<Rightarrow> string" where
  "trim s = rev (dropWhile isWhiteSpace (rev (dropWhile isWhiteSpace s)))"

definition endsWith :: "string \<Rightarrow> char \<Rightarrow> bool" where
  "endsWith s c \<longleftrightarrow> s \<noteq> [] \<and> last s = c"

text \<open>\<open>s.split(" ")\<close>: the pieces between single spaces, empty pieces kept, never no piece.\<close>

fun split :: "string \<Rightarrow> string list" where
  "split [] = [[]]"
| "split (c # cs) =
     (if c = CHR '' '' then [] # split cs
      else (case split cs of [] \<Rightarrow> [[c]] | t # ts \<Rightarrow> (c # t) # ts))"

definition isDigit :: "char \<Rightarrow> bool" where
  "isDigit c \<longleftrightarrow> c \<in> set ''0123456789''"

definition digitVal :: "char \<Rightarrow> int" where
  "digitVal c = int (of_char c) - 48"

definition mathInt :: "string \<Rightarrow> int" where
  "mathInt ds = foldl (\<lambda>a c. 10 * a + digitVal c) 0 ds"

text \<open>
  \<open>Number.parseInt(s, 10)\<close>: leading white space is dropped, then one sign, then the longest
  run of decimal digits is read and whatever follows it is ignored; no digit gives NaN,
  here \<open>None\<close>. (A run too long for a double is rounded by JavaScript; rounding keeps a
  number above 255 above 255, which is all the caller looks at.)
\<close>

definition parseInt :: "string \<Rightarrow> int option" where
  "parseInt s =
     (let s1 = dropWhile isWhiteSpace s;
          sign = (case s1 of [] \<Rightarrow> 1 | c # _ \<Rightarrow> if c = CHR ''-'' then - 1 else 1);
          s2 = (case s1 of [] \<Rightarrow> [] | c # r \<Rightarrow> if c = CHR ''+'' \<or> c = CHR ''-'' then r else s1);
          z = takeWhile isDigit s2
      in if z = [] then None else Some (sign * mathInt z))"

text \<open>
  A number in a template literal: the decimal digits of an integer (as JavaScript prints
  every integer below \<open>10^21\<close>).
\<close>

fun digits10 :: "nat \<Rightarrow> string" where
  "digits10 n =
     (if n < 10 then [''0123456789'' ! n]
      else digits10 (n div 10) @ [''0123456789'' ! (n mod 10)])"

declare digits10.simps [simp del]

definition numberToString :: "int \<Rightarrow> string" where
  "numberToString n = (if n < 0 then CHR ''-'' # digits10 (nat (- n)) else digits10 (nat n))"

section \<open>The command parser (index.ts, parseCommand)\<close>

text \<open>
  The result is a command or the string \<open>"ERROR"\<close>. The destructuring
  \<open>[prefix, ...args]\<close> always finds a first piece, \<open>split\<close> never giving the empty list
  (\<open>split_not_Nil\<close> below); the model's case for it is never taken.
\<close>

datatype Parsed = Parsed Command | PARSE_ERROR

definition parseCommand :: "string \<Rightarrow> Parsed" where
  "parseCommand textCommand =
     (if \<not> endsWith textCommand (CHR 0x0A) then PARSE_ERROR
      else case split (trim textCommand) of
        [] \<Rightarrow> PARSE_ERROR
      | prefix # args \<Rightarrow>
          if prefix = ''SHUTDOWN'' then Parsed SHUTDOWN
          else if prefix = ''INITIALIZE'' then Parsed INITIALIZE
          else if prefix = ''TL_INTENSITY'' then
            (if length args \<noteq> 1 then PARSE_ERROR
             else case parseInt (args ! 0) of
               None \<Rightarrow> PARSE_ERROR
             | Some n \<Rightarrow>
                 if n < 0 \<or> n > 255 then PARSE_ERROR
                 else Parsed (TL_INTENSITY n))
          else if prefix = ''SHUTTER_OPEN'' then
            (if length args \<noteq> 1 then PARSE_ERROR
             else if args ! 0 = ''0'' then Parsed (SHUTTER_OPEN False)
             else if args ! 0 = ''1'' then Parsed (SHUTTER_OPEN True)
             else PARSE_ERROR)
          else PARSE_ERROR)"

section \<open>Asynchronous operations\<close>

text \<open>
  What a caller sees of a promise once the program has nothing left to run for it:
  fulfilled with a value, rejected with an error, or pending for ever. An \<open>async\<close>
  function runs from a world and leaves a world; \<open>None\<close> is a run that never ends.
  \<open>await\<close> passes a rejection on unchanged, as \<open>await\<close> in a function without \<open>try\<close>
  does, and never resumes after a promise that stays pending.
\<close>

datatype 'a settled = Fulfilled 'a | Rejected error | Pending

type_synonym 'a async = "world \<Rightarrow> ('a settled \<times> world) option"

definition resolve :: "'a \<Rightarrow> 'a async" where
  "resolve x w = Some (Fulfilled x, w)"

definition reject :: "error \<Rightarrow> 'a async" where
  "reject e w = Some (Rejected e, w)"

definition await :: "'a async \<Rightarrow> ('a \<Rightarrow> 'b async) \<Rightarrow> 'b async" where
  "await m k w =
     (case m w of
        None \<Rightarrow> None
      | Some (Fulfilled x, w') \<Rightarrow> k x w'
      | Some (Rejected e, w') \<Rightarrow> Some (Rejected e, w')
      | Some (Pending, w') \<Rightarrow> Some (Pending, w'))"

text \<open>A suspension point: the listener pushes the next batch of lines on the queue.\<close>

definition deliver :: "world \<Rightarrow> world" where
  "deliver w =
     (case incoming w of
        [] \<Rightarrow> w
      | b # bs \<Rightarrow> w\<lparr>responseQueue := responseQueue w @ b, incoming := bs\<rparr>)"

definition setTimeout :: "int \<Rightarrow> world \<Rightarrow> world" where
  "setTimeout ms w = deliver (w\<lparr>timers := timers w @ [ms]\<rparr>)"

text \<open>\<open>_port.write(line, callback)\<close>, awaited: the line goes out, the callback's argument comes back.\<close>

definition port_write :: "string \<Rightarrow> world \<Rightarrow> string option \<times> world" where
  "port_write line w =
     (let w1 = deliver (w\<lparr>wire := wire w @ [line]\<rparr>)
      in case writeFaults w1 of
           [] \<Rightarrow> (None, w1)
         | f # fs \<Rightarrow> (f, w1\<lparr>writeFaults := fs\<rparr>))"

text \<open>
  \<open>p.then(resolve)\<close> inside \<open>new Promise(resolve => ...)\<close>: a value of \<open>p\<close> fulfils the new
  promise; a rejection of \<open>p\<close> has no handler and the new promise, which only \<open>resolve\<close>
  could settle, stays pending.
\<close>

fun then_resolve :: "'a settled \<times> world \<Rightarrow> 'a settled \<times> world" where
  "then_resolve (Fulfilled v, w) = (Fulfilled v, w)"
| "then_resolve (Rejected e, w) = (Pending, w\<lparr>unhandled := unhandled w @ [e]\<rparr>)"
| "then_resolve (Pending, w) = (Pending, w)"

partial_function (option) waitForResponse ::
  "int \<Rightarrow> int \<Rightarrow> world \<Rightarrow> (string settled \<times> world) option" where
  "waitForResponse maxWait_ms interval_ms w =
     (case responseQueue w of
        r # rs \<Rightarrow> Some (Fulfilled r, w\<lparr>responseQueue := rs\<rparr>)
      | [] \<Rightarrow>
          if maxWait_ms \<le> 0 then Some (Rejected Timeout, w)
          else Option.bind
                 (waitForResponse (maxWait_ms - interval_ms) interval_ms (setTimeout interval_ms w))
                 (\<lambda>p. Some (then_resolve p)))"

definition writeToPort :: "string \<Rightarrow> string async" where
  "writeToPort message w =
     (if port w = None then reject PortUninitialized w
      else case port_write (message @ [CHR 0x0D]) w of
             (Some e, w1) \<Rightarrow> reject (WriteError e) w1
           | (None, w1) \<Rightarrow> waitForResponse 1000 10 w1)"

section \<open>The device protocol (index.ts)\<close>

definition syncMicroscopeToState :: "Response async" where
  "syncMicroscopeToState w =
     (let st = getState w
      in if shutterOpen st then
           await (writeToPort (''77020 '' @ numberToString (intensity st) @ '' 0''))
             (\<lambda>resp. if resp \<noteq> ''77020'' then resolve ERROR else resolve OK) w
         else
           await (writeToPort ''77020 0 0'')
             (\<lambda>resp. if resp \<noteq> ''77020'' then resolve ERROR else resolve OK) w)"

text \<open>The port is created by \<open>initialize\<close> when there is none, and kept when there is one.\<close>

definition openPort :: "world \<Rightarrow> world" where
  "openPort w = (if port w = None then w\<lparr>port := Some (SerialPort ''COM4'')\<rparr> else w)"

definition initialize :: "Response async" where
  "initialize w =
     await (writeToPort ''77025 0'') (\<lambda>response.
       if response \<noteq> ''77025'' then resolve ERROR
       else await (writeToPort ''77005 0'') (\<lambda>manualResponse.
         if manualResponse \<noteq> ''77005'' then resolve ERROR
         else await (writeToPort ''77020 0 0'') (\<lambda>intensityResp.
           if intensityResp \<noteq> ''77020'' then resolve ERROR
           else await (writeToPort ''77032 0 1'') (\<lambda>shutterResp.
             if shutterResp \<noteq> ''77032'' then resolve ERROR
             else syncMicroscopeToState))))
       (openPort w)"

definition shutdown :: "Response async" where
  "shutdown w =
     (if port w \<noteq> None then
        await (writeToPort ''77005 1'') (\<lambda>manualResponse.
          if manualResponse \<noteq> ''77005'' then resolve ERROR
          else (\<lambda>w'. resolve OK (w'\<lparr>port := None\<rparr>))) w
      else resolve OK (w\<lparr>port := None\<rparr>))"

definition setIntensity :: "int \<Rightarrow> Response async" where
  "setIntensity lvl w = resolve OK (store_setIntensity lvl w)"

definition setShutterState :: "bool \<Rightarrow> Response async" where
  "setShutterState st w = resolve OK (store_setShutter st w)"

section \<open>The executor and the request handler (index.ts)\<close>

text \<open>
  After the \<open>switch\<close>: the sync, and the result composed from both. The \<open>default\<close> branch
  of the \<open>switch\<close> throws on a tag outside the four of the type \<open>Command\<close>; the datatype has
  no such value.
\<close>

definition sync_after :: "Response \<Rightarrow> Response async" where
  "sync_after result =
     await syncMicroscopeToState (\<lambda>syncResult.
       resolve (if syncResult = ERROR then syncResult else result))"

fun executeCommand :: "Command \<Rightarrow> Response async" where
  "executeCommand SHUTDOWN = shutdown"
| "executeCommand INITIALIZE = await initialize sync_after"
| "executeCommand (TL_INTENSITY lvl) = await (setIntensity lvl) sync_after"
| "executeCommand (SHUTTER_OPEN st) = await (setShutterState st) sync_after"

definition handleRequest :: "string \<Rightarrow> Response async" where
  "handleRequest data =
     (case parseCommand data of
        PARSE_ERROR \<Rightarrow> resolve ERROR
      | Parsed parsed \<Rightarrow> executeCommand parsed)"

section \<open>Process start and the public command interface\<close>

text \<open>
  The module initialisers: no port, an empty queue, the default state. What the device
  and the port will do is the run's own.
\<close>

definition startup :: "string option list \<Rightarrow> string list list \<Rightarrow> world" where
  "startup faults lines =
     \<lparr>port = None, responseQueue = [], state = initial_state, wire = [], timers = [],
      writeFaults = faults, incoming = lines, unhandled = []\<rparr>"

text \<open>
  The worlds the program can be in between two commands: the start, the world a request
  leaves (whatever became of its promise), and any world the device reaches from there by
  pushing lines on the queue while the program is idle, or by changing what it will do.
\<close>

inductive reachable :: "world \<Rightarrow> bool" where
  boot: "reachable (startup faults lines)"
| request: "reachable w \<Longrightarrow> handleRequest data w = Some (s, w') \<Longrightarrow> reachable w'"
| device: "reachable w \<Longrightarrow>
     reachable (w\<lparr>responseQueue := q, writeFaults := faults, incoming := lines\<rparr>)"

text \<open>The line \<open>syncMicroscopeToState\<close> writes, by its two branches.\<close>

definition syncLine :: "State \<Rightarrow> string" where
  "syncLine st =
     (if shutterOpen st then ''77020 '' @ numberToString (intensity st) @ '' 0''
      else ''77020 0 0'')"

text \<open>
  A port that is open on a device which answers each of the coming writes at once with one
  line, the lines \<open>sent\<close> having gone out already.
\<close>

definition answered :: "string list \<Rightarrow> string list \<Rightarrow> world" where
  "answered sent echoes =
     \<lparr>port = Some (SerialPort ''COM4''), responseQueue = [], state = initial_state,
      wire = map (\<lambda>l. l @ [CHR 0x0D]) sent, timers = [], writeFaults = [],
      incoming = map (\<lambda>e. [e]) echoes, unhandled = []\<rparr>"

text \<open>An operation whose run ends, from every world.\<close>

definition returns :: "'a async \<Rightarrow> bool" where
  "returns m \<longleftrightarrow> (\<forall>w. m w \<noteq> None)"

text \<open>An operation that leaves the session state as it found it, however it ends.\<close>

definition keeps_state :: "'a async \<Rightarrow> bool" where
  "keeps_state m \<longleftrightarrow> (\<forall>w s w'. m w = Some (s, w') \<longrightarrow> state w' = state w)"

section \<open>Promises\<close>

lemma await_Fulfilled: "m w = Some (Fulfilled x, w') \<Longrightarrow> await m k w = k x w'"
  by (simp add: await_def)

lemma await_Rejected: "m w = Some (Rejected e, w') \<Longrightarrow> await m k w = Some (Rejected e, w')"
  by (simp add: await_def)

lemma await_Pending: "m w = Some (Pending, w') \<Longrightarrow> await m k w = Some (Pending, w')"
  by (simp add: await_def)

lemma await_Some:
  "await m k w = Some (s, w2) \<longleftrightarrow>
     (\<exists>x w1. m w = Some (Fulfilled x, w1) \<and> k x w1 = Some (s, w2)) \<or>
     (\<exists>e. m w = Some (Rejected e, w2) \<and> s = Rejected e) \<or>
     (m w = Some (Pending, w2) \<and> s = Pending)"
  by (auto simp: await_def split: option.splits settled.splits prod.splits)

section \<open>The response waiter\<close>

lemma deliver_frame:
  "port (deliver w) = port w" "state (deliver w) = state w" "wire (deliver w) = wire w"
  "timers (deliver w) = timers w" "writeFaults (deliver w) = writeFaults w"
  "unhandled (deliver w) = unhandled w"
  by (simp_all add: deliver_def split: list.splits)

lemma setTimeout_frame:
  "port (setTimeout i w) = port w" "state (setTimeout i w) = state w"
  "wire (setTimeout i w) = wire w" "writeFaults (setTimeout i w) = writeFaults w"
  by (simp_all add: setTimeout_def deliver_frame)

lemma then_resolve_frame:
  "port (snd (then_resolve p)) = port (snd p)" "state (snd (then_resolve p)) = state (snd p)"
  "wire (snd (then_resolve p)) = wire (snd p)"
  "writeFaults (snd (then_resolve p)) = writeFaults (snd p)"
  by (cases p rule: then_resolve.cases; simp)+

lemma then_resolve_not_Rejected: "then_resolve p \<noteq> (Rejected e, w')"
  by (cases p rule: then_resolve.cases) simp_all

text \<open>A line is waiting: it is returned at once, and no timer is set.\<close>

lemma waitForResponse_ready:
  "responseQueue w = r # rs \<Longrightarrow>
     waitForResponse m i w = Some (Fulfilled r, w\<lparr>responseQueue := rs\<rparr>)"
  by (subst waitForResponse.simps) simp

lemma waitForResponse_head:
  "responseQueue w \<noteq> [] \<Longrightarrow>
     waitForResponse m i w =
       Some (Fulfilled (hd (responseQueue w)), w\<lparr>responseQueue := tl (responseQueue w)\<rparr>)"
  by (cases "responseQueue w") (simp_all add: waitForResponse_ready)

text \<open>No line and no budget: the call itself rejects.\<close>

lemma waitForResponse_expired:
  "responseQueue w = [] \<Longrightarrow> m \<le> 0 \<Longrightarrow> waitForResponse m i w = Some (Rejected Timeout, w)"
  by (subst waitForResponse.simps) simp

text \<open>No line, some budget: one timer of the interval, then the same with the budget less the interval.\<close>

lemma waitForResponse_poll:
  "responseQueue w = [] \<Longrightarrow> 0 < m \<Longrightarrow>
     waitForResponse m i w =
       Option.bind (waitForResponse (m - i) i (setTimeout i w)) (\<lambda>p. Some (then_resolve p))"
  by (subst waitForResponse.simps) simp

text \<open>With a positive interval the polling ends.\<close>

lemma waitForResponse_returns:
  "0 < i \<Longrightarrow> \<exists>p. waitForResponse m i w = Some p"
proof (induction "nat m" arbitrary: m w rule: less_induct)
  case less
  show ?case
  proof (cases "responseQueue w")
    case (Cons r rs)
    then show ?thesis by (simp add: waitForResponse_ready)
  next
    case Nil
    show ?thesis
    proof (cases "m \<le> 0")
      case True
      with Nil show ?thesis by (simp add: waitForResponse_expired)
    next
      case False
      with less.prems have "nat (m - i) < nat m" by simp
      from less.hyps [OF this less.prems]
      obtain p where "waitForResponse (m - i) i (setTimeout i w) = Some p" by blast
      with Nil False show ?thesis by (simp add: waitForResponse_poll)
    qed
  qed
qed

lemma waitForResponse_frame:
  "0 < i \<Longrightarrow> waitForResponse m i w = Some p \<Longrightarrow>
     port (snd p) = port w \<and> state (snd p) = state w \<and> wire (snd p) = wire w \<and>
     writeFaults (snd p) = writeFaults w"
proof (induction "nat m" arbitrary: m w p rule: less_induct)
  case less
  show ?case
  proof (cases "responseQueue w")
    case (Cons r rs)
    with less.prems show ?thesis by (auto simp: waitForResponse_ready)
  next
    case Nil
    show ?thesis
    proof (cases "m \<le> 0")
      case True
      with Nil less.prems show ?thesis by (auto simp: waitForResponse_expired)
    next
      case False
      with less.prems have lt: "nat (m - i) < nat m" by simp
      from Nil False less.prems(2)
      obtain q where q: "waitForResponse (m - i) i (setTimeout i w) = Some q"
        and p: "p = then_resolve q"
        by (auto simp: waitForResponse_poll split: bind_splits)
      from less.hyps [OF lt less.prems(1) q] show ?thesis
        by (simp add: p then_resolve_frame setTimeout_frame)
    qed
  qed
qed

text \<open>
  A call with a budget left never rejects: what the calls below it throw stops at
  \<open>then_resolve\<close>.
\<close>

lemma waitForResponse_no_rejection:
  "0 < m \<Longrightarrow> waitForResponse m i w \<noteq> Some (Rejected e, w')"
proof (cases "responseQueue w")
  case (Cons r rs)
  then show ?thesis by (simp add: waitForResponse_ready)
next
  case Nil
  assume "0 < m"
  with Nil show ?thesis
    by (auto simp: waitForResponse_poll then_resolve_not_Rejected split: bind_splits)
qed

lemma setTimeout_silent:
  "responseQueue w = [] \<Longrightarrow> \<forall>b\<in>set (take 1 (incoming w)). b = [] \<Longrightarrow>
     setTimeout i w = w\<lparr>timers := timers w @ [i], incoming := drop 1 (incoming w)\<rparr>"
  by (cases "incoming w") (simp_all add: setTimeout_def deliver_def)

text \<open>
  Nothing queued and nothing arriving during the \<open>n + 1\<close> timers a budget of \<open>(n + 1) * i\<close>
  pays for: the last poll throws, nobody handles it, and the caller's promise stays
  pending.
\<close>

lemma waitForResponse_silent:
  "0 < i \<Longrightarrow> responseQueue w = [] \<Longrightarrow> \<forall>b\<in>set (take (Suc n) (incoming w)). b = [] \<Longrightarrow>
     m = int (Suc n) * i \<Longrightarrow>
     waitForResponse m i w =
       Some (Pending, w\<lparr>timers := timers w @ replicate (Suc n) i,
                          incoming := drop (Suc n) (incoming w),
                          unhandled := unhandled w @ [Timeout]\<rparr>)"
proof (induction n arbitrary: m w)
  case 0
  then have st: "setTimeout i w = w\<lparr>timers := timers w @ [i], incoming := drop 1 (incoming w)\<rparr>"
    by (intro setTimeout_silent) simp_all
  from 0 have "0 < m" by simp
  with 0 show ?case
    by (simp add: waitForResponse_poll st waitForResponse_expired)
next
  case (Suc n)
  from Suc.prems have st: "setTimeout i w = w\<lparr>timers := timers w @ [i], incoming := drop 1 (incoming w)\<rparr>"
    by (intro setTimeout_silent) (cases "incoming w"; simp)+
  let ?w1 = "w\<lparr>timers := timers w @ [i], incoming := drop 1 (incoming w)\<rparr>"
  from Suc.prems have pos: "0 < m"
    by (simp add: zero_less_mult_iff)
  have q: "responseQueue ?w1 = []" using Suc.prems by simp
  have quiet: "\<forall>b\<in>set (take (Suc n) (incoming ?w1)). b = []"
  proof -
    have "set (take (Suc n) (drop 1 (incoming w))) \<subseteq> set (take (Suc (Suc n)) (incoming w))"
      by (cases "incoming w") auto
    with Suc.prems(3) show ?thesis by auto
  qed
  have m: "m - i = int (Suc n) * i" using Suc.prems(4) by (simp add: algebra_simps)
  from Suc.IH [OF Suc.prems(1) q quiet m] Suc.prems(2) pos show ?case
    by (simp add: waitForResponse_poll st replicate_append_same drop_Suc tl_drop)
qed

section \<open>One exchange\<close>

lemma port_write_frame:
  "port_write l w = (f, w') \<Longrightarrow>
     port w' = port w \<and> state w' = state w \<and> wire w' = wire w @ [l]"
  by (auto simp: port_write_def Let_def deliver_frame split: list.splits)

lemma writeToPort_returns: "\<exists>p. writeToPort msg w = Some p"
  using waitForResponse_returns [of 10 1000]
  by (auto simp: writeToPort_def reject_def split: prod.splits option.splits)

lemma writeToPort_frame:
  "writeToPort msg w = Some (s, w') \<Longrightarrow>
     port w' = port w \<and> state w' = state w \<and>
     wire w' = wire w @ (if port w = None then [] else [msg @ [CHR 0x0D]])"
  using waitForResponse_frame [of 10 1000 _ "(s, w')"]
  by (auto simp: writeToPort_def reject_def split: prod.splits option.splits if_splits
      dest!: port_write_frame)

text \<open>An exchange never rejects with the timeout: its budget is 1000.\<close>

lemma writeToPort_never_Timeout: "writeToPort msg w \<noteq> Some (Rejected Timeout, w')"
  using waitForResponse_no_rejection [of 1000 10]
  by (auto simp: writeToPort_def reject_def split: prod.splits option.splits if_splits)

section \<open>The protocol operations\<close>

lemma sync_as_exchange:
  "syncMicroscopeToState w =
     await (writeToPort (syncLine (state w)))
       (\<lambda>resp. resolve (if resp = ''77020'' then OK else ERROR)) w"
proof -
  have k: "(\<lambda>resp. if resp \<noteq> ''77020'' then resolve ERROR else resolve OK) =
           (\<lambda>resp. resolve (if resp = ''77020'' then OK else ERROR))"
    by (rule ext) simp
  show ?thesis
    by (simp add: syncMicroscopeToState_def getState_def syncLine_def Let_def k)
qed

lemma sync_returns: "\<exists>p. syncMicroscopeToState w = Some p"
  using writeToPort_returns [of "syncLine (state w)" w]
  by (auto simp: sync_as_exchange await_def resolve_def split: settled.splits prod.splits)

lemma sync_frame:
  "syncMicroscopeToState w = Some (s, w') \<Longrightarrow>
     port w' = port w \<and> state w' = state w \<and>
     wire w' = wire w @ (if port w = None then [] else [syncLine (state w) @ [CHR 0x0D]])"
  by (auto simp: sync_as_exchange await_Some resolve_def dest!: writeToPort_frame)

lemma sync_Fulfilled:
  "syncMicroscopeToState w = Some (Fulfilled r, w') \<longleftrightarrow>
     (\<exists>echo. writeToPort (syncLine (state w)) w = Some (Fulfilled echo, w') \<and>
        r = (if echo = ''77020'' then OK else ERROR))"
  by (auto simp: sync_as_exchange await_Some resolve_def)

lemma openPort_frame:
  "port (openPort w) \<noteq> None" "state (openPort w) = state w" "wire (openPort w) = wire w"
  by (simp_all add: openPort_def)

lemmas run_simps =
  startup_def initial_state_def openPort_def writeToPort_def port_write_def deliver_def
  waitForResponse_head reject_def resolve_def await_def Let_def
  syncMicroscopeToState_def getState_def store_setIntensity_def store_setShutter_def
  setIntensity_def setShutterState_def sync_after_def shutdown_def initialize_def

lemma writeToPort_answered:
  "writeToPort msg ((answered sent (e # es))\<lparr>state := st\<rparr>) =
     Some (Fulfilled e, (answered (sent @ [msg]) es)\<lparr>state := st\<rparr>)"
  by (simp add: answered_def run_simps)


lemma answered_state: "(answered sent es)\<lparr>state := initial_state\<rparr> = answered sent es"
  by (simp add: answered_def)

lemma shutdown_cases:
  "shutdown w = Some (s, w') \<longleftrightarrow>
     (port w = None \<and> s = Fulfilled OK \<and> w' = w\<lparr>port := None\<rparr>) \<or>
     (port w \<noteq> None \<and>
        ((\<exists>w1. writeToPort ''77005 1'' w = Some (Fulfilled ''77005'', w1) \<and>
            s = Fulfilled OK \<and> w' = w1\<lparr>port := None\<rparr>) \<or>
         (\<exists>echo. writeToPort ''77005 1'' w = Some (Fulfilled echo, w') \<and> echo \<noteq> ''77005'' \<and>
            s = Fulfilled ERROR) \<or>
         (\<exists>e. writeToPort ''77005 1'' w = Some (Rejected e, w') \<and> s = Rejected e) \<or>
         (writeToPort ''77005 1'' w = Some (Pending, w') \<and> s = Pending)))"
  by (auto simp: shutdown_def await_Some resolve_def)

section \<open>The session state under the operations\<close>

lemma keeps_state_resolve: "keeps_state (resolve x)"
  by (simp add: keeps_state_def resolve_def)

lemma keeps_state_await:
  "keeps_state m \<Longrightarrow> (\<And>x. keeps_state (k x)) \<Longrightarrow> keeps_state (await m k)"
  unfolding keeps_state_def await_Some by metis

lemma keeps_state_if:
  "keeps_state a \<Longrightarrow> keeps_state b \<Longrightarrow> keeps_state (if c then a else b)"
  by simp

lemma keeps_state_writeToPort: "keeps_state (writeToPort msg)"
  by (auto simp: keeps_state_def dest: writeToPort_frame)

lemma keeps_state_sync: "keeps_state syncMicroscopeToState"
  by (auto simp: keeps_state_def dest: sync_frame)

lemma keeps_state_sync_after: "keeps_state (sync_after r)"
  unfolding sync_after_def
  by (intro keeps_state_await keeps_state_sync keeps_state_resolve)

lemma initialize_state: "initialize w = Some (s, w') \<Longrightarrow> state w' = state w"
proof -
  have "keeps_state (await (writeToPort ''77025 0'') (\<lambda>response.
       if response \<noteq> ''77025'' then resolve ERROR
       else await (writeToPort ''77005 0'') (\<lambda>manualResponse.
         if manualResponse \<noteq> ''77005'' then resolve ERROR
         else await (writeToPort ''77020 0 0'') (\<lambda>intensityResp.
           if intensityResp \<noteq> ''77020'' then resolve ERROR
           else await (writeToPort ''77032 0 1'') (\<lambda>shutterResp.
             if shutterResp \<noteq> ''77032'' then resolve ERROR
             else syncMicroscopeToState)))))"
    by (intro keeps_state_await keeps_state_if keeps_state_writeToPort keeps_state_resolve
        keeps_state_sync)
  moreover assume "initialize w = Some (s, w')"
  ultimately have "state w' = state (openPort w)"
    unfolding keeps_state_def initialize_def by blast
  then show ?thesis by (simp add: openPort_frame)
qed

lemma keeps_state_initialize: "keeps_state initialize"
  by (auto simp: keeps_state_def dest: initialize_state)

lemma executeCommand_state:
  "executeCommand c w = Some (s, w') \<Longrightarrow>
     state w' = (case c of TL_INTENSITY lvl \<Rightarrow> (state w)\<lparr>intensity := lvl\<rparr>
                 | SHUTTER_OPEN st \<Rightarrow> (state w)\<lparr>shutterOpen := st\<rparr>
                 | _ \<Rightarrow> state w)"
proof (cases c)
  case INITIALIZE
  assume "executeCommand c w = Some (s, w')"
  with INITIALIZE keeps_state_await [OF keeps_state_initialize keeps_state_sync_after]
  show ?thesis by (auto simp: keeps_state_def)
next
  case SHUTDOWN
  assume "executeCommand c w = Some (s, w')"
  with SHUTDOWN show ?thesis
    by (auto simp: shutdown_cases dest!: writeToPort_frame)
next
  case (TL_INTENSITY lvl)
  assume "executeCommand c w = Some (s, w')"
  with TL_INTENSITY have "sync_after OK (store_setIntensity lvl w) = Some (s, w')"
    by (simp add: setIntensity_def resolve_def await_def)
  with keeps_state_sync_after [of OK] have "state w' = state (store_setIntensity lvl w)"
    by (auto simp: keeps_state_def)
  with TL_INTENSITY show ?thesis by (simp add: store_setIntensity_def)
next
  case (SHUTTER_OPEN st)
  assume "executeCommand c w = Some (s, w')"
  with SHUTTER_OPEN have "sync_after OK (store_setShutter st w) = Some (s, w')"
    by (simp add: setShutterState_def resolve_def await_def)
  with keeps_state_sync_after [of OK] have "state w' = state (store_setShutter st w)"
    by (auto simp: keeps_state_def)
  with SHUTTER_OPEN show ?thesis by (simp add: store_setShutter_def)
qed

section \<open>The parser\<close>

lemma split_not_Nil: "split s \<noteq> []"
  by (induction s) (auto split: list.splits)

lemma parseCommand_tokens:
  "endsWith d (CHR 0x0A) \<Longrightarrow> split (trim d) = p # args \<Longrightarrow>
     parseCommand d =
       (if p = ''SHUTDOWN'' then Parsed SHUTDOWN
        else if p = ''INITIALIZE'' then Parsed INITIALIZE
        else if p = ''TL_INTENSITY'' then
          (if length args \<noteq> 1 then PARSE_ERROR
           else case parseInt (args ! 0) of
             None \<Rightarrow> PARSE_ERROR
           | Some n \<Rightarrow> if n < 0 \<or> n > 255 then PARSE_ERROR else Parsed (TL_INTENSITY n))
        else if p = ''SHUTTER_OPEN'' then
          (if length args \<noteq> 1 then PARSE_ERROR
           else if args ! 0 = ''0'' then Parsed (SHUTTER_OPEN False)
           else if args ! 0 = ''1'' then Parsed (SHUTTER_OPEN True)
           else PARSE_ERROR)
        else PARSE_ERROR)"
  by (simp add: parseCommand_def)

lemma parseCommand_no_newline: "\<not> endsWith d (CHR 0x0A) \<Longrightarrow> parseCommand d = PARSE_ERROR"
  by (simp add: parseCommand_def)

lemma parseCommand_level:
  assumes "parseCommand d = Parsed (TL_INTENSITY n)"
  shows "0 \<le> n \<and> n \<le> 255"
proof -
  have e: "endsWith d (CHR 0x0A)"
    using assms parseCommand_no_newline [of d] by auto
  obtain p args where t: "split (trim d) = p # args"
    using split_not_Nil [of "trim d"] by (cases "split (trim d)") auto
  note eq = parseCommand_tokens [OF e t]
  have "p = ''TL_INTENSITY''"
  proof (rule ccontr)
    assume "p \<noteq> ''TL_INTENSITY''"
    with assms eq show False by (simp split: if_splits)
  qed
  with assms eq have
    "(if length args \<noteq> 1 then PARSE_ERROR
      else case parseInt (args ! 0) of
        None \<Rightarrow> PARSE_ERROR
      | Some n \<Rightarrow> if n < 0 \<or> n > 255 then PARSE_ERROR else Parsed (TL_INTENSITY n)) =
     Parsed (TL_INTENSITY n)"
    by simp
  then show ?thesis
    by (auto split: if_splits option.splits)
qed

lemma split_no_space: "CHR '' '' \<notin> set s \<Longrightarrow> split s = [s]"
  by (induction s) auto

lemma trim_line:
  assumes "\<not> isWhiteSpace c" and "a \<noteq> []" and "\<not> isWhiteSpace (last a)"
  shows "trim (c # a @ [CHR 0x0A]) = c # a"
proof -
  have "dropWhile isWhiteSpace (c # a @ [CHR 0x0A]) = c # a @ [CHR 0x0A]"
    using assms(1) by simp
  moreover have "dropWhile isWhiteSpace (rev (c # a @ [CHR 0x0A])) = rev a @ [c]"
  proof -
    have "rev (c # a @ [CHR 0x0A]) = CHR 0x0A # rev a @ [c]" by simp
    moreover have "isWhiteSpace (CHR 0x0A)" by (simp add: isWhiteSpace_def)
    moreover have "dropWhile isWhiteSpace (rev a @ [c]) = rev a @ [c]"
      using assms(2,3) by (cases a rule: rev_cases) simp_all
    ultimately show ?thesis by simp
  qed
  ultimately show ?thesis by (simp add: trim_def)
qed

lemma shutter_line:
  assumes "\<forall>c\<in>set arg. \<not> isWhiteSpace c"
  shows "endsWith (''SHUTTER_OPEN '' @ arg @ [CHR 0x0A]) (CHR 0x0A) \<and>
     split (trim (''SHUTTER_OPEN '' @ arg @ [CHR 0x0A])) =
       (if arg = [] then [''SHUTTER_OPEN''] else [''SHUTTER_OPEN'', arg])"
proof (cases "arg = []")
  case True
  then show ?thesis
    by (simp add: endsWith_def trim_def isWhiteSpace_def)
next
  case False
  with assms have l: "\<not> isWhiteSpace (last arg)" by simp
  have sp: "CHR '' '' \<notin> set arg" using assms by (auto simp: isWhiteSpace_def)
  have "trim (CHR ''S'' # (''HUTTER_OPEN '' @ arg) @ [CHR 0x0A]) = CHR ''S'' # ''HUTTER_OPEN '' @ arg"
    using False l by (intro trim_line) (simp_all add: isWhiteSpace_def)
  then have "trim (''SHUTTER_OPEN '' @ arg @ [CHR 0x0A]) = ''SHUTTER_OPEN '' @ arg" by simp
  with False sp show ?thesis
    by (simp add: endsWith_def split_no_space)
qed

lemma digit_nth:
  "d < 10 \<Longrightarrow> isDigit (''0123456789'' ! d) \<and> digitVal (''0123456789'' ! d) = int d \<and>
     \<not> isWhiteSpace (''0123456789'' ! d) \<and> ''0123456789'' ! d \<noteq> CHR ''+'' \<and>
     ''0123456789'' ! d \<noteq> CHR ''-''"
proof -
  assume "d < 10"
  then have "d = 0 \<or> d = 1 \<or> d = 2 \<or> d = 3 \<or> d = 4 \<or> d = 5 \<or> d = 6 \<or> d = 7 \<or>
    d = 8 \<or> d = 9" by arith
  then show ?thesis
    by (elim disjE) (simp_all add: isDigit_def digitVal_def isWhiteSpace_def)
qed

lemma digits10_digits: "digits10 k \<noteq> [] \<and> (\<forall>c\<in>set (digits10 k). isDigit c)"
proof (induction k rule: digits10.induct)
  case (1 n)
  show ?case
  proof (cases "n < 10")
    case True
    then show ?thesis by (subst (1 2) digits10.simps) (simp add: digit_nth)
  next
    case False
    with 1 have "digits10 (n div 10) \<noteq> [] \<and> (\<forall>c\<in>set (digits10 (n div 10)). isDigit c)"
      by simp
    moreover have "isDigit (''0123456789'' ! (n mod 10))" by (simp add: digit_nth)
    ultimately show ?thesis using False by (subst (1 2) digits10.simps) simp
  qed
qed

lemma mathInt_snoc: "mathInt (ds @ [c]) = 10 * mathInt ds + digitVal c"
  by (simp add: mathInt_def)

lemma mathInt_digits10: "mathInt (digits10 k) = int k"
proof (induction k rule: digits10.induct)
  case (1 n)
  show ?case
  proof (cases "n < 10")
    case True
    then show ?thesis
      by (subst digits10.simps) (simp add: mathInt_def digit_nth)
  next
    case False
    with 1 have "mathInt (digits10 (n div 10)) = int (n div 10)" by simp
    moreover have "digitVal (''0123456789'' ! (n mod 10)) = int (n mod 10)"
      by (simp add: digit_nth)
    ultimately show ?thesis using False
      by (subst digits10.simps) (simp add: mathInt_snoc zdiv_int zmod_int)
  qed
qed

lemma isDigit_not_space: "isDigit c \<Longrightarrow> \<not> isWhiteSpace c \<and> c \<noteq> CHR ''+'' \<and> c \<noteq> CHR ''-''"
  by (auto simp: isDigit_def isWhiteSpace_def)

lemma parseInt_digits:
  assumes "ds \<noteq> []" and "\<forall>c\<in>set ds. isDigit c"
  shows "parseInt ds = Some (mathInt ds)" and "parseInt (CHR ''-'' # ds) = Some (- mathInt ds)"
proof -
  from assms obtain c r where ds: "ds = c # r" by (cases ds) auto
  with assms have c: "isDigit c" by simp
  from assms(2) have t: "takeWhile isDigit ds = ds" by (simp add: takeWhile_eq_all_conv)
  from isDigit_not_space [OF c] have d: "dropWhile isWhiteSpace ds = ds"
    by (simp add: ds)
  have "parseInt ds = (if takeWhile isDigit ds = [] then None else Some (1 * mathInt (takeWhile isDigit ds)))"
    unfolding parseInt_def Let_def d using isDigit_not_space [OF c] by (simp add: ds)
  then show "parseInt ds = Some (mathInt ds)" unfolding t using assms(1) by simp
  have m: "dropWhile isWhiteSpace (CHR ''-'' # ds) = CHR ''-'' # ds"
    by (simp add: isWhiteSpace_def)
  have "parseInt (CHR ''-'' # ds) =
      (if takeWhile isDigit ds = [] then None else Some (- 1 * mathInt (takeWhile isDigit ds)))"
    unfolding parseInt_def Let_def m by simp
  then show "parseInt (CHR ''-'' # ds) = Some (- mathInt ds)" unfolding t using assms(1) by simp
qed

lemma parseInt_numberToString: "parseInt (numberToString n) = Some n"
proof (cases "n < 0")
  case True
  from parseInt_digits(2) [of "digits10 (nat (- n))"] digits10_digits [of "nat (- n)"]
  have "parseInt (CHR ''-'' # digits10 (nat (- n))) = Some (- mathInt (digits10 (nat (- n))))"
    by blast
  with True show ?thesis by (simp add: numberToString_def mathInt_digits10)
next
  case False
  from parseInt_digits(1) [of "digits10 (nat n)"] digits10_digits [of "nat n"]
  have "parseInt (digits10 (nat n)) = Some (mathInt (digits10 (nat n)))"
    by blast
  with False show ?thesis by (simp add: numberToString_def mathInt_digits10)
qed

lemma numberToString_chars:
  "numberToString n \<noteq> [] \<and> (\<forall>c\<in>set (numberToString n). \<not> isWhiteSpace c)"
proof -
  have "\<forall>c\<in>set (digits10 k). \<not> isWhiteSpace c" for k
    using digits10_digits [of k] isDigit_not_space by blast
  moreover have "\<not> isWhiteSpace (CHR ''-'')" by (simp add: isWhiteSpace_def)
  ultimately show ?thesis
    using digits10_digits [of "nat n"] by (simp add: numberToString_def)
qed

text \<open>The decimal form of an integer is accepted exactly when the integer is in range.\<close>

lemma parseCommand_intensity_decimal:
  "parseCommand (''TL_INTENSITY '' @ numberToString n @ [CHR 0x0A]) =
     (if 0 \<le> n \<and> n \<le> 255 then Parsed (TL_INTENSITY n) else PARSE_ERROR)"
proof -
  let ?a = "numberToString n"
  from numberToString_chars [of n] have ne: "?a \<noteq> []" and ws: "\<forall>c\<in>set ?a. \<not> isWhiteSpace c"
    by simp_all
  then have l: "\<not> isWhiteSpace (last ?a)" by simp
  have sp: "CHR '' '' \<notin> set ?a" using ws by (auto simp: isWhiteSpace_def)
  have "trim (CHR ''T'' # (''L_INTENSITY '' @ ?a) @ [CHR 0x0A]) = CHR ''T'' # ''L_INTENSITY '' @ ?a"
    using ne l by (intro trim_line) (simp_all add: isWhiteSpace_def)
  then have t: "trim (''TL_INTENSITY '' @ ?a @ [CHR 0x0A]) = ''TL_INTENSITY '' @ ?a" by simp
  have s: "split (trim (''TL_INTENSITY '' @ ?a @ [CHR 0x0A])) = ''TL_INTENSITY'' # [?a]"
    unfolding t using ne sp by (simp add: split_no_space)
  have e: "endsWith (''TL_INTENSITY '' @ ?a @ [CHR 0x0A]) (CHR 0x0A)"
    by (simp add: endsWith_def)
  have "parseCommand (''TL_INTENSITY '' @ ?a @ [CHR 0x0A]) =
      (case parseInt ?a of
         None \<Rightarrow> PARSE_ERROR
       | Some k \<Rightarrow> if k < 0 \<or> k > 255 then PARSE_ERROR else Parsed (TL_INTENSITY k))"
    unfolding parseCommand_tokens [OF e s] by simp
  then show ?thesis
    unfolding parseInt_numberToString by auto
qed

lemma handleRequest_intensity:
  assumes "handleRequest d w = Some (s, w')"
    and "0 \<le> intensity (state w) \<and> intensity (state w) \<le> 255"
  shows "0 \<le> intensity (state w') \<and> intensity (state w') \<le> 255"
proof (cases "parseCommand d")
  case PARSE_ERROR
  with assms show ?thesis by (simp add: handleRequest_def resolve_def)
next
  case (Parsed c)
  with assms(1) have "executeCommand c w = Some (s, w')" by (simp add: handleRequest_def)
  from executeCommand_state [OF this] assms(2) Parsed parseCommand_level [of d]
  show ?thesis by (cases c) auto
qed

section \<open>The executor\<close>

lemma initialize_OK:
  assumes "initialize w = Some (Fulfilled OK, w')"
  shows "state w' = state w \<and>
     wire w' = wire w @ map (\<lambda>l. l @ [CHR 0x0D])
       [''77025 0'', ''77005 0'', ''77020 0 0'', ''77032 0 1'', syncLine (state w)]"
proof -
  from assms obtain e1 w1 where a1: "writeToPort ''77025 0'' (openPort w) = Some (Fulfilled e1, w1)"
    and r1: "(if e1 \<noteq> ''77025'' then resolve ERROR
       else await (writeToPort ''77005 0'') (\<lambda>manualResponse.
         if manualResponse \<noteq> ''77005'' then resolve ERROR
         else await (writeToPort ''77020 0 0'') (\<lambda>intensityResp.
           if intensityResp \<noteq> ''77020'' then resolve ERROR
           else await (writeToPort ''77032 0 1'') (\<lambda>shutterResp.
             if shutterResp \<noteq> ''77032'' then resolve ERROR
             else syncMicroscopeToState)))) w1 = Some (Fulfilled OK, w')"
    by (auto simp: initialize_def await_Some)
  from r1 obtain e2 w2 where a2: "writeToPort ''77005 0'' w1 = Some (Fulfilled e2, w2)"
    and r2: "(if e2 \<noteq> ''77005'' then resolve ERROR
         else await (writeToPort ''77020 0 0'') (\<lambda>intensityResp.
           if intensityResp \<noteq> ''77020'' then resolve ERROR
           else await (writeToPort ''77032 0 1'') (\<lambda>shutterResp.
             if shutterResp \<noteq> ''77032'' then resolve ERROR
             else syncMicroscopeToState))) w2 = Some (Fulfilled OK, w')"
    by (auto simp: await_Some resolve_def split: if_splits)
  from r2 obtain e3 w3 where a3: "writeToPort ''77020 0 0'' w2 = Some (Fulfilled e3, w3)"
    and r3: "(if e3 \<noteq> ''77020'' then resolve ERROR
           else await (writeToPort ''77032 0 1'') (\<lambda>shutterResp.
             if shutterResp \<noteq> ''77032'' then resolve ERROR
             else syncMicroscopeToState)) w3 = Some (Fulfilled OK, w')"
    by (auto simp: await_Some resolve_def split: if_splits)
  from r3 obtain e4 w4 where a4: "writeToPort ''77032 0 1'' w3 = Some (Fulfilled e4, w4)"
    and r4: "(if e4 \<noteq> ''77032'' then resolve ERROR else syncMicroscopeToState) w4 =
      Some (Fulfilled OK, w')"
    by (auto simp: await_Some resolve_def split: if_splits)
  from r4 have s: "syncMicroscopeToState w4 = Some (Fulfilled OK, w')"
    by (auto simp: resolve_def split: if_splits)
  from writeToPort_frame [OF a1] writeToPort_frame [OF a2] writeToPort_frame [OF a3]
    writeToPort_frame [OF a4] sync_frame [OF s]
  show ?thesis by (simp add: openPort_frame)
qed

lemma sync_after_outcome:
  "syncMicroscopeToState w1 = Some (x, w2) \<Longrightarrow>
     sync_after r w1 = Some (map_settled (\<lambda>sr. if sr = ERROR then ERROR else r) x, w2)"
  by (cases x) (simp_all add: sync_after_def await_def resolve_def)

section \<open>Every request returns\<close>

lemma returns_resolve: "returns (resolve x)"
  by (simp add: returns_def resolve_def)

lemma returns_await: "returns m \<Longrightarrow> (\<And>x. returns (k x)) \<Longrightarrow> returns (await m k)"
  by (auto simp: returns_def await_def split: option.splits settled.splits)

lemma returns_if: "returns a \<Longrightarrow> returns b \<Longrightarrow> returns (if c then a else b)"
  by simp

lemma returns_writeToPort: "returns (writeToPort msg)"
  using writeToPort_returns by (auto simp: returns_def)

lemma returns_sync: "returns syncMicroscopeToState"
  using sync_returns by (auto simp: returns_def)

lemma returns_sync_after: "returns (sync_after r)"
  unfolding sync_after_def by (intro returns_await returns_sync returns_resolve)

lemma returns_initialize: "returns initialize"
proof -
  have "returns (await (writeToPort ''77025 0'') (\<lambda>response.
       if response \<noteq> ''77025'' then resolve ERROR
       else await (writeToPort ''77005 0'') (\<lambda>manualResponse.
         if manualResponse \<noteq> ''77005'' then resolve ERROR
         else await (writeToPort ''77020 0 0'') (\<lambda>intensityResp.
           if intensityResp \<noteq> ''77020'' then resolve ERROR
           else await (writeToPort ''77032 0 1'') (\<lambda>shutterResp.
             if shutterResp \<noteq> ''77032'' then resolve ERROR
             else syncMicroscopeToState)))))"
    by (intro returns_await returns_if returns_writeToPort returns_resolve returns_sync)
  then show ?thesis by (simp add: returns_def initialize_def)
qed

lemma returns_shutdown: "returns shutdown"
proof -
  have "returns (await (writeToPort ''77005 1'') (\<lambda>manualResponse.
          if manualResponse \<noteq> ''77005'' then resolve ERROR
          else (\<lambda>w'. resolve OK (w'\<lparr>port := None\<rparr>))))"
    by (intro returns_await returns_if returns_writeToPort returns_resolve)
      (simp add: returns_def resolve_def)
  then show ?thesis by (simp add: returns_def shutdown_def resolve_def)
qed

text \<open>Every command ends, and so does every request.\<close>

lemma returns_executeCommand: "returns (executeCommand c)"
proof (cases c)
  case INITIALIZE
  then show ?thesis by (simp add: returns_await returns_initialize returns_sync_after)
next
  case SHUTDOWN
  then show ?thesis by (simp add: returns_shutdown)
next
  case (TL_INTENSITY lvl)
  have "returns (setIntensity lvl)" by (simp add: returns_def setIntensity_def resolve_def)
  with TL_INTENSITY show ?thesis by (simp add: returns_await returns_sync_after)
next
  case (SHUTTER_OPEN st)
  have "returns (setShutterState st)" by (simp add: returns_def setShutterState_def resolve_def)
  with SHUTTER_OPEN show ?thesis by (simp add: returns_await returns_sync_after)
qed

lemma handleRequest_returns: "\<exists>s w'. handleRequest d w = Some (s, w')"
proof (cases "parseCommand d")
  case PARSE_ERROR
  then show ?thesis by (simp add: handleRequest_def resolve_def)
next
  case (Parsed c)
  with returns_executeCommand [of c] show ?thesis
    by (auto simp: handleRequest_def returns_def)
qed

section \<open>The claims\<close>

subsection \<open>C1: the sync is one exchange\<close>

text \<open>
  C1, as the program has it. \<open>syncMicroscopeToState\<close> is one exchange, whose line the
  session state decides: \<open>77020 {intensity} 0\<close> with the shutter open, \<open>77020 0 0\<close> with
  the shutter closed. Its outcome is the outcome of that exchange with the echo judged:
  \<open>OK\<close> for the echo \<open>77020\<close>, \<open>ERROR\<close> for any other. It leaves the session state as it
  was. With a port open it puts exactly that one line on the wire; with no port it writes
  nothing and throws the error of the uninitialized port, the world unchanged. In
  particular, once the intensity has been set to 100 and the shutter closed, the line is
  \<open>77020 0 0\<close> and the intensity stays 100.
\<close>

theorem sync_one_exchange:
  "(\<exists>x w'. writeToPort (if shutterOpen (state w)
                          then ''77020 '' @ numberToString (intensity (state w)) @ '' 0''
                          else ''77020 0 0'') w = Some (x, w') \<and>
       syncMicroscopeToState w =
         Some (map_settled (\<lambda>echo. if echo = ''77020'' then OK else ERROR) x, w') \<and>
       state w' = state w \<and>
       (port w \<noteq> None \<longrightarrow>
          wire w' = wire w @ [(if shutterOpen (state w)
                               then ''77020 '' @ numberToString (intensity (state w)) @ '' 0''
                               else ''77020 0 0'') @ [CHR 0x0D]])) \<and>
   (\<exists>x w'. writeToPort ''77020 0 0'' (store_setShutter False (store_setIntensity 100 w)) =
         Some (x, w') \<and>
       syncMicroscopeToState (store_setShutter False (store_setIntensity 100 w)) =
         Some (map_settled (\<lambda>echo. if echo = ''77020'' then OK else ERROR) x, w') \<and>
       intensity (state w') = 100 \<and>
       (port w \<noteq> None \<longrightarrow> wire w' = wire w @ [''77020 0 0'' @ [CHR 0x0D]])) \<and>
   (port w = None \<longrightarrow> syncMicroscopeToState w = Some (Rejected PortUninitialized, w))"
proof -
  have one: "\<exists>x w'. writeToPort (syncLine (state v)) v = Some (x, w') \<and>
       syncMicroscopeToState v =
         Some (map_settled (\<lambda>echo. if echo = ''77020'' then OK else ERROR) x, w') \<and>
       state w' = state v \<and>
       (port v \<noteq> None \<longrightarrow> wire w' = wire v @ [syncLine (state v) @ [CHR 0x0D]])" for v
  proof -
    obtain x w' where ex: "writeToPort (syncLine (state v)) v = Some (x, w')"
      using writeToPort_returns [of "syncLine (state v)" v] by auto
    have "syncMicroscopeToState v =
        Some (map_settled (\<lambda>echo. if echo = ''77020'' then OK else ERROR) x, w')"
      by (cases x) (simp_all add: sync_as_exchange await_def ex resolve_def)
    with ex writeToPort_frame [OF ex] show ?thesis by auto
  qed
  let ?v = "store_setShutter False (store_setIntensity 100 w)"
  have v: "syncLine (state ?v) = ''77020 0 0''" "intensity (state ?v) = 100"
    "port ?v = port w" "wire ?v = wire w"
    by (simp_all add: syncLine_def store_setShutter_def store_setIntensity_def)
  from one [of w] have first: "\<exists>x w'. writeToPort (if shutterOpen (state w)
                          then ''77020 '' @ numberToString (intensity (state w)) @ '' 0''
                          else ''77020 0 0'') w = Some (x, w') \<and>
       syncMicroscopeToState w =
         Some (map_settled (\<lambda>echo. if echo = ''77020'' then OK else ERROR) x, w') \<and>
       state w' = state w \<and>
       (port w \<noteq> None \<longrightarrow>
          wire w' = wire w @ [(if shutterOpen (state w)
                               then ''77020 '' @ numberToString (intensity (state w)) @ '' 0''
                               else ''77020 0 0'') @ [CHR 0x0D]])"
    by (simp only: syncLine_def)
  from one [of ?v] have second: "\<exists>x w'. writeToPort ''77020 0 0'' ?v = Some (x, w') \<and>
       syncMicroscopeToState ?v =
         Some (map_settled (\<lambda>echo. if echo = ''77020'' then OK else ERROR) x, w') \<and>
       intensity (state w') = 100 \<and>
       (port w \<noteq> None \<longrightarrow> wire w' = wire w @ [''77020 0 0'' @ [CHR 0x0D]])"
    unfolding v by (metis v(2))
  have third: "port w = None \<longrightarrow> syncMicroscopeToState w = Some (Rejected PortUninitialized, w)"
    by (simp add: sync_as_exchange await_def writeToPort_def reject_def)
  from first second third show ?thesis by (intro conjI)
qed

text \<open>
  The claim as written has the sync send its line whatever the world. Right after the
  start of the process there is no port: with the intensity set to 100 and the shutter
  closed, the sync throws before it writes, and the wire stays empty.
\<close>

theorem sync_one_exchange_counterexample:
  "syncMicroscopeToState
     ((startup [] [])\<lparr>state := \<lparr>shutterOpen = False, intensity = 100\<rparr>\<rparr>) =
     Some (Rejected PortUninitialized,
       (startup [] [])\<lparr>state := \<lparr>shutterOpen = False, intensity = 100\<rparr>\<rparr>) \<and>
   store_setShutter False (store_setIntensity 100 (startup [] [])) =
     (startup [] [])\<lparr>state := \<lparr>shutterOpen = False, intensity = 100\<rparr>\<rparr> \<and>
   wire ((startup [] [])\<lparr>state := \<lparr>shutterOpen = False, intensity = 100\<rparr>\<rparr>) = [] \<and>
   wire ((startup [] [])\<lparr>state := \<lparr>shutterOpen = False, intensity = 100\<rparr>\<rparr>) \<noteq>
     [''77020 0 0'' @ [CHR 0x0D]]"
  by (simp add: run_simps)

theorem sync_one_exchange_witness:
  "port ((answered [] [''77020''])\<lparr>state := \<lparr>shutterOpen = True, intensity = 100\<rparr>\<rparr>) \<noteq> None \<and>
   syncMicroscopeToState ((answered [] [''77020''])\<lparr>state := \<lparr>shutterOpen = True, intensity = 100\<rparr>\<rparr>) =
     Some (Fulfilled OK, (answered [''77020 100 0''] [])\<lparr>state := \<lparr>shutterOpen = True, intensity = 100\<rparr>\<rparr>) \<and>
   wire ((answered [''77020 100 0''] [])\<lparr>state := \<lparr>shutterOpen = True, intensity = 100\<rparr>\<rparr>) =
     [''77020 100 0'' @ [CHR 0x0D]] \<and>
   syncMicroscopeToState (store_setShutter False (store_setIntensity 100 (answered [] [''77021'']))) =
     Some (Fulfilled ERROR, (answered [''77020 0 0''] [])\<lparr>state := \<lparr>shutterOpen = False, intensity = 100\<rparr>\<rparr>) \<and>
   port (startup [] [[''77020'']]) = None \<and>
   syncMicroscopeToState (startup [] [[''77020'']]) =
     Some (Rejected PortUninitialized, startup [] [[''77020'']])"
proof -
  have n: "numberToString 100 = ''100''"
    by (simp add: numberToString_def digits10.simps)
  have s: "store_setShutter False (store_setIntensity 100 (answered [] [''77021''])) =
      (answered [] [''77021''])\<lparr>state := \<lparr>shutterOpen = False, intensity = 100\<rparr>\<rparr>"
    by (simp add: store_setShutter_def store_setIntensity_def answered_def initial_state_def)
  have p: "port ((answered [] [''77020''])\<lparr>state := \<lparr>shutterOpen = True, intensity = 100\<rparr>\<rparr>) \<noteq> None"
    by (simp add: answered_def)
  have w: "wire ((answered [''77020 100 0''] [])\<lparr>state := \<lparr>shutterOpen = True, intensity = 100\<rparr>\<rparr>) =
     [''77020 100 0'' @ [CHR 0x0D]]"
    by (simp add: answered_def)
  from sync_one_exchange
    [of "(answered [] [''77020''])\<lparr>state := \<lparr>shutterOpen = True, intensity = 100\<rparr>\<rparr>"]
  have a: "syncMicroscopeToState ((answered [] [''77020''])\<lparr>state := \<lparr>shutterOpen = True, intensity = 100\<rparr>\<rparr>) =
     Some (Fulfilled OK, (answered [''77020 100 0''] [])\<lparr>state := \<lparr>shutterOpen = True, intensity = 100\<rparr>\<rparr>)"
    by (auto simp: n writeToPort_answered)
  from sync_one_exchange [of "answered [] [''77021'']"]
  have b: "syncMicroscopeToState (store_setShutter False (store_setIntensity 100 (answered [] [''77021'']))) =
     Some (Fulfilled ERROR, (answered [''77020 0 0''] [])\<lparr>state := \<lparr>shutterOpen = False, intensity = 100\<rparr>\<rparr>)"
    by (auto simp: s writeToPort_answered)
  have q: "port (startup [] [[''77020'']]) = None"
    by (simp add: startup_def)
  from sync_one_exchange [of "startup [] [[''77020'']]"] q
  have c: "syncMicroscopeToState (startup [] [[''77020'']]) =
     Some (Rejected PortUninitialized, startup [] [[''77020'']])"
    by blast
  from p a w b q c show ?thesis by (intro conjI)
qed

subsection \<open>C2: dispatch, and the sync after the command\<close>

text \<open>
  C2, as the program has it. \<open>SHUTDOWN\<close> is \<open>shutdown\<close> and nothing else: no sync line is
  written. \<open>TL_INTENSITY\<close> and \<open>SHUTTER_OPEN\<close> update the store and always run the sync;
  \<open>INITIALIZE\<close> runs the sync whenever \<open>initialize\<close> returns a result, \<open>OK\<close> or \<open>ERROR\<close>.
  When the sync returns a result, the command's result is \<open>ERROR\<close> if either result is
  \<open>ERROR\<close>, and else the result of the operation; when the sync throws, so does the
  command. When \<open>initialize\<close> throws, the command throws the same error, in the world
  \<open>initialize\<close> left: no sync runs.
\<close>

theorem executeCommand_sync:
  "executeCommand SHUTDOWN w = shutdown w \<and>
   (shutdown w = Some (s, w') \<longrightarrow>
      wire w' = wire w @ (if port w = None then [] else [''77005 1'' @ [CHR 0x0D]])) \<and>
   (initialize w = Some (Fulfilled r, w1) \<longrightarrow>
      (\<exists>x w2. syncMicroscopeToState w1 = Some (x, w2) \<and>
         executeCommand INITIALIZE w =
           Some (map_settled (\<lambda>sr. if r = ERROR \<or> sr = ERROR then ERROR else r) x, w2))) \<and>
   (initialize w = Some (Rejected e, w1) \<longrightarrow> executeCommand INITIALIZE w = Some (Rejected e, w1)) \<and>
   (\<exists>x w2. syncMicroscopeToState (store_setIntensity lvl w) = Some (x, w2) \<and>
      executeCommand (TL_INTENSITY lvl) w =
        Some (map_settled (\<lambda>sr. if sr = ERROR then ERROR else OK) x, w2)) \<and>
   (\<exists>x w2. syncMicroscopeToState (store_setShutter st w) = Some (x, w2) \<and>
      executeCommand (SHUTTER_OPEN st) w =
        Some (map_settled (\<lambda>sr. if sr = ERROR then ERROR else OK) x, w2))"
proof -
  have sd: "shutdown w = Some (s, w') \<longrightarrow>
      wire w' = wire w @ (if port w = None then [] else [''77005 1'' @ [CHR 0x0D]])"
    by (auto simp: shutdown_cases dest!: writeToPort_frame)
  have ini: "initialize w = Some (Fulfilled r, w1) \<longrightarrow>
      (\<exists>x w2. syncMicroscopeToState w1 = Some (x, w2) \<and>
         executeCommand INITIALIZE w =
           Some (map_settled (\<lambda>sr. if r = ERROR \<or> sr = ERROR then ERROR else r) x, w2))"
  proof
    assume i: "initialize w = Some (Fulfilled r, w1)"
    obtain x w2 where sy: "syncMicroscopeToState w1 = Some (x, w2)"
      using sync_returns [of w1] by auto
    have f: "(\<lambda>sr. if sr = ERROR then ERROR else r) =
        (\<lambda>sr. if r = ERROR \<or> sr = ERROR then ERROR else r)"
      by (rule ext) simp
    from i sync_after_outcome [OF sy, of r]
    have "executeCommand INITIALIZE w =
        Some (map_settled (\<lambda>sr. if r = ERROR \<or> sr = ERROR then ERROR else r) x, w2)"
      by (simp add: await_Fulfilled f)
    with sy show "\<exists>x w2. syncMicroscopeToState w1 = Some (x, w2) \<and>
         executeCommand INITIALIZE w =
           Some (map_settled (\<lambda>sr. if r = ERROR \<or> sr = ERROR then ERROR else r) x, w2)"
      by blast
  qed
  have rej: "initialize w = Some (Rejected e, w1) \<longrightarrow>
      executeCommand INITIALIZE w = Some (Rejected e, w1)"
    by (simp add: await_Rejected)
  have tl: "\<exists>x w2. syncMicroscopeToState (store_setIntensity lvl w) = Some (x, w2) \<and>
      executeCommand (TL_INTENSITY lvl) w =
        Some (map_settled (\<lambda>sr. if sr = ERROR then ERROR else OK) x, w2)"
  proof -
    obtain x w2 where sy: "syncMicroscopeToState (store_setIntensity lvl w) = Some (x, w2)"
      using sync_returns [of "store_setIntensity lvl w"] by auto
    from sync_after_outcome [OF sy, of OK] sy show ?thesis
      by (simp add: setIntensity_def resolve_def await_def)
  qed
  have sh: "\<exists>x w2. syncMicroscopeToState (store_setShutter st w) = Some (x, w2) \<and>
      executeCommand (SHUTTER_OPEN st) w =
        Some (map_settled (\<lambda>sr. if sr = ERROR then ERROR else OK) x, w2)"
  proof -
    obtain x w2 where sy: "syncMicroscopeToState (store_setShutter st w) = Some (x, w2)"
      using sync_returns [of "store_setShutter st w"] by auto
    from sync_after_outcome [OF sy, of OK] sy show ?thesis
      by (simp add: setShutterState_def resolve_def await_def)
  qed
  have "executeCommand SHUTDOWN w = shutdown w" by simp
  with sd ini rej tl sh show ?thesis by (intro conjI)
qed

text \<open>
  The claim as written says that the three commands always run the sync and that the
  result is \<open>ERROR\<close> whenever the operation or the sync fails. Right after the start of the
  process, \<open>TL_INTENSITY 5\<close> finds no port: the sync throws, and the command is rejected
  instead of giving \<open>ERROR\<close>. And when the first write of \<open>INITIALIZE\<close> is refused by the port,
  \<open>initialize\<close> throws and the command ends there, one line on the wire and no sync.
\<close>

theorem executeCommand_sync_counterexample:
  "executeCommand (TL_INTENSITY 5) (startup [] []) =
     Some (Rejected PortUninitialized,
       (startup [] [])\<lparr>state := \<lparr>shutterOpen = False, intensity = 5\<rparr>\<rparr>) \<and>
   initialize (startup [Some ''Port is not open''] []) =
     Some (Rejected (WriteError ''Port is not open''),
       (answered [''77025 0''] [])) \<and>
   executeCommand INITIALIZE (startup [Some ''Port is not open''] []) =
     Some (Rejected (WriteError ''Port is not open''),
       (answered [''77025 0''] [])) \<and>
   wire (answered [''77025 0''] []) = [''77025 0'' @ [CHR 0x0D]]"
  by (simp add: run_simps answered_def)

theorem executeCommand_sync_witness:
  "initialize (startup [] (map (\<lambda>e. [e]) [''77000'', ''77020''])) =
     Some (Fulfilled ERROR, answered [''77025 0''] [''77020'']) \<and>
   syncMicroscopeToState (answered [''77025 0''] [''77020'']) =
     Some (Fulfilled OK, answered [''77025 0'', ''77020 0 0''] []) \<and>
   executeCommand INITIALIZE (startup [] (map (\<lambda>e. [e]) [''77000'', ''77020''])) =
     Some (Fulfilled ERROR, answered [''77025 0'', ''77020 0 0''] []) \<and>
   executeCommand SHUTDOWN (answered [] [''77005'']) =
     Some (Fulfilled OK, (answered [''77005 1''] [])\<lparr>port := None\<rparr>) \<and>
   wire ((answered [''77005 1''] [])\<lparr>port := None\<rparr>) = [''77005 1'' @ [CHR 0x0D]]"
proof -
  let ?w = "startup [] (map (\<lambda>e. [e]) [''77000'', ''77020''])"
  have i: "initialize ?w = Some (Fulfilled ERROR, answered [''77025 0''] [''77020''])"
    by (simp add: run_simps answered_def)
  have sy: "syncMicroscopeToState (answered [''77025 0''] [''77020'']) =
     Some (Fulfilled OK, answered [''77025 0'', ''77020 0 0''] [])"
    by (simp add: run_simps answered_def)
  have sd: "shutdown (answered [] [''77005'']) =
     Some (Fulfilled OK, (answered [''77005 1''] [])\<lparr>port := None\<rparr>)"
    by (simp add: run_simps answered_def)
  from executeCommand_sync [of ?w _ _ ERROR "answered [''77025 0''] [''77020'']"] i sy
  have a: "executeCommand INITIALIZE ?w =
     Some (Fulfilled ERROR, answered [''77025 0'', ''77020 0 0''] [])"
    by auto
  from executeCommand_sync [of "answered [] [''77005'']" "Fulfilled OK"
      "(answered [''77005 1''] [])\<lparr>port := None\<rparr>"] sd
  have b: "executeCommand SHUTDOWN (answered [] [''77005'']) =
     Some (Fulfilled OK, (answered [''77005 1''] [])\<lparr>port := None\<rparr>) \<and>
   wire ((answered [''77005 1''] [])\<lparr>port := None\<rparr>) = [''77005 1'' @ [CHR 0x0D]]"
    by (simp add: answered_def)
  from i sy a b show ?thesis by simp
qed

subsection \<open>C3: the four exchanges of initialize\<close>



subsection \<open>C4: the argument of TL_INTENSITY\<close>

text \<open>
  C4. The claim wants \<open>ERROR\<close> for an argument that is not a valid base-10 integer. The
  parser reads the argument with \<open>parseInt\<close>, which stops at the first character that is
  not a digit and ignores the rest: \<open>12abc\<close> is accepted as 12 and \<open>1.5\<close> as 1. (For the
  decimal form of an integer the claim holds, see \<open>parseCommand_intensity_decimal\<close>.)
\<close>

theorem parseCommand_intensity_trailing:
  "parseCommand (''TL_INTENSITY 12abc'' @ [CHR 0x0A]) = Parsed (TL_INTENSITY 12) \<and>
   parseCommand (''TL_INTENSITY 1.5'' @ [CHR 0x0A]) = Parsed (TL_INTENSITY 1)"
  by (simp add: parseCommand_def endsWith_def trim_def isWhiteSpace_def parseInt_def
      isDigit_def mathInt_def digitVal_def)

subsection \<open>C5: no rollback when the sync fails\<close>

text \<open>
  C5. When the echo of the sync exchange that follows \<open>TL_INTENSITY\<close> or \<open>SHUTTER_OPEN\<close> is
  not \<open>77020\<close>, the command gives \<open>ERROR\<close> and the session state is the old one with the
  new intensity, or the new shutter flag, in it: nothing is rolled back.
\<close>

theorem sync_failure_keeps_state:
  "(writeToPort (syncLine (state (store_setIntensity lvl w))) (store_setIntensity lvl w) =
      Some (Fulfilled echo, w') \<and> echo \<noteq> ''77020'' \<longrightarrow>
      executeCommand (TL_INTENSITY lvl) w = Some (Fulfilled ERROR, w') \<and>
      state w' = (state w)\<lparr>intensity := lvl\<rparr>) \<and>
   (writeToPort (syncLine (state (store_setShutter st w))) (store_setShutter st w) =
      Some (Fulfilled echo, w') \<and> echo \<noteq> ''77020'' \<longrightarrow>
      executeCommand (SHUTTER_OPEN st) w = Some (Fulfilled ERROR, w') \<and>
      state w' = (state w)\<lparr>shutterOpen := st\<rparr>)"
proof (rule conjI)
  show "writeToPort (syncLine (state (store_setIntensity lvl w))) (store_setIntensity lvl w) =
      Some (Fulfilled echo, w') \<and> echo \<noteq> ''77020'' \<longrightarrow>
      executeCommand (TL_INTENSITY lvl) w = Some (Fulfilled ERROR, w') \<and>
      state w' = (state w)\<lparr>intensity := lvl\<rparr>"
  proof (intro impI; elim conjE)
    assume a: "writeToPort (syncLine (state (store_setIntensity lvl w))) (store_setIntensity lvl w) =
      Some (Fulfilled echo, w')" and b: "echo \<noteq> ''77020''"
    from a b have "syncMicroscopeToState (store_setIntensity lvl w) = Some (Fulfilled ERROR, w')"
      by (simp add: sync_Fulfilled)
    then have "executeCommand (TL_INTENSITY lvl) w = Some (Fulfilled ERROR, w')"
      by (simp add: setIntensity_def sync_after_def await_def resolve_def)
    moreover from writeToPort_frame [OF a] have "state w' = (state w)\<lparr>intensity := lvl\<rparr>"
      by (simp add: store_setIntensity_def)
    ultimately show "executeCommand (TL_INTENSITY lvl) w = Some (Fulfilled ERROR, w') \<and>
      state w' = (state w)\<lparr>intensity := lvl\<rparr>" by simp
  qed
  show "writeToPort (syncLine (state (store_setShutter st w))) (store_setShutter st w) =
      Some (Fulfilled echo, w') \<and> echo \<noteq> ''77020'' \<longrightarrow>
      executeCommand (SHUTTER_OPEN st) w = Some (Fulfilled ERROR, w') \<and>
      state w' = (state w)\<lparr>shutterOpen := st\<rparr>"
  proof (intro impI; elim conjE)
    assume a: "writeToPort (syncLine (state (store_setShutter st w))) (store_setShutter st w) =
      Some (Fulfilled echo, w')" and b: "echo \<noteq> ''77020''"
    from a b have "syncMicroscopeToState (store_setShutter st w) = Some (Fulfilled ERROR, w')"
      by (simp add: sync_Fulfilled)
    then have "executeCommand (SHUTTER_OPEN st) w = Some (Fulfilled ERROR, w')"
      by (simp add: setShutterState_def sync_after_def await_def resolve_def)
    moreover from writeToPort_frame [OF a] have "state w' = (state w)\<lparr>shutterOpen := st\<rparr>"
      by (simp add: store_setShutter_def)
    ultimately show "executeCommand (SHUTTER_OPEN st) w = Some (Fulfilled ERROR, w') \<and>
      state w' = (state w)\<lparr>shutterOpen := st\<rparr>" by simp
  qed
qed

theorem sync_failure_keeps_state_witness:
  "executeCommand (TL_INTENSITY 100) (answered [] [''77000'']) =
     Some (Fulfilled ERROR,
       (answered [''77020 0 0''] [])\<lparr>state := \<lparr>shutterOpen = False, intensity = 100\<rparr>\<rparr>) \<and>
   executeCommand (SHUTTER_OPEN True) (answered [] [''77000'']) =
     Some (Fulfilled ERROR,
       (answered [''77020 0 0''] [])\<lparr>state := \<lparr>shutterOpen = True, intensity = 0\<rparr>\<rparr>)"
proof -
  have i: "store_setIntensity 100 (answered [] [''77000'']) =
      (answered [] [''77000''])\<lparr>state := \<lparr>shutterOpen = False, intensity = 100\<rparr>\<rparr>"
    by (simp add: store_setIntensity_def answered_def initial_state_def)
  have s: "store_setShutter True (answered [] [''77000'']) =
      (answered [] [''77000''])\<lparr>state := \<lparr>shutterOpen = True, intensity = 0\<rparr>\<rparr>"
    by (simp add: store_setShutter_def answered_def initial_state_def)
  have n: "numberToString 0 = ''0''"
    by (simp add: numberToString_def digits10.simps)
  from sync_failure_keeps_state [of 100 "answered [] [''77000'']" "''77000''"
      "(answered [''77020 0 0''] [])\<lparr>state := \<lparr>shutterOpen = False, intensity = 100\<rparr>\<rparr>"]
  have a: "executeCommand (TL_INTENSITY 100) (answered [] [''77000'']) =
     Some (Fulfilled ERROR,
       (answered [''77020 0 0''] [])\<lparr>state := \<lparr>shutterOpen = False, intensity = 100\<rparr>\<rparr>)"
    by (simp add: i syncLine_def writeToPort_answered)
  from sync_failure_keeps_state [of _ "answered [] [''77000'']" "''77000''"
      "(answered [''77020 0 0''] [])\<lparr>state := \<lparr>shutterOpen = True, intensity = 0\<rparr>\<rparr>" True]
  have b: "executeCommand (SHUTTER_OPEN True) (answered [] [''77000'']) =
     Some (Fulfilled ERROR,
       (answered [''77020 0 0''] [])\<lparr>state := \<lparr>shutterOpen = True, intensity = 0\<rparr>\<rparr>)"
    by (simp add: s syncLine_def writeToPort_answered n)
  from a b show ?thesis by simp
qed

subsection \<open>C6: shutdown\<close>

text \<open>
  C6. With a port open, \<open>shutdown\<close> makes the one exchange \<open>77005 1\<close>; on the echo \<open>77005\<close> it
  gives \<open>OK\<close> and sets the port to null, on any other echo it gives \<open>ERROR\<close> and keeps the
  port. Whatever happens, the wire gains at most that one line (no sync line follows), the
  session state is kept, and the port is null afterwards exactly when it was null before or
  the result is \<open>OK\<close>.
\<close>

theorem shutdown_release:
  "(port w \<noteq> None \<and> writeToPort ''77005 1'' w = Some (Fulfilled echo, w1) \<longrightarrow>
      wire w1 = wire w @ [''77005 1'' @ [CHR 0x0D]] \<and> port w1 = port w \<and>
      (echo = ''77005'' \<longrightarrow> shutdown w = Some (Fulfilled OK, w1\<lparr>port := None\<rparr>)) \<and>
      (echo \<noteq> ''77005'' \<longrightarrow> shutdown w = Some (Fulfilled ERROR, w1))) \<and>
   (shutdown w = Some (s, w') \<longrightarrow>
      wire w' = wire w @ (if port w = None then [] else [''77005 1'' @ [CHR 0x0D]]) \<and>
      state w' = state w \<and>
      (port w' = None \<longleftrightarrow> port w = None \<or> s = Fulfilled OK))"
proof (rule conjI)
  show "port w \<noteq> None \<and> writeToPort ''77005 1'' w = Some (Fulfilled echo, w1) \<longrightarrow>
      wire w1 = wire w @ [''77005 1'' @ [CHR 0x0D]] \<and> port w1 = port w \<and>
      (echo = ''77005'' \<longrightarrow> shutdown w = Some (Fulfilled OK, w1\<lparr>port := None\<rparr>)) \<and>
      (echo \<noteq> ''77005'' \<longrightarrow> shutdown w = Some (Fulfilled ERROR, w1))"
    by (auto simp: shutdown_cases dest: writeToPort_frame)
  show "shutdown w = Some (s, w') \<longrightarrow>
      wire w' = wire w @ (if port w = None then [] else [''77005 1'' @ [CHR 0x0D]]) \<and>
      state w' = state w \<and>
      (port w' = None \<longleftrightarrow> port w = None \<or> s = Fulfilled OK)"
    by (auto simp: shutdown_cases dest!: writeToPort_frame)
qed

theorem shutdown_release_witness:
  "shutdown (answered [] [''77005'']) =
     Some (Fulfilled OK, (answered [''77005 1''] [])\<lparr>port := None\<rparr>) \<and>
   shutdown (answered [] [''77000'']) = Some (Fulfilled ERROR, answered [''77005 1''] []) \<and>
   port (answered [''77005 1''] []) = Some (SerialPort ''COM4'') \<and>
   wire (answered [''77005 1''] []) = [''77005 1'' @ [CHR 0x0D]]"
proof -
  note ex = writeToPort_answered [where st = initial_state, unfolded answered_state]
  have p: "port (answered [] es) \<noteq> None" for es by (simp add: answered_def)
  from shutdown_release [of "answered [] [''77005'']" "''77005''" "answered [''77005 1''] []"]
  have a: "shutdown (answered [] [''77005'']) =
     Some (Fulfilled OK, (answered [''77005 1''] [])\<lparr>port := None\<rparr>)"
    by (simp add: ex p)
  from shutdown_release [of "answered [] [''77000'']" "''77000''" "answered [''77005 1''] []"]
  have b: "shutdown (answered [] [''77000'']) = Some (Fulfilled ERROR, answered [''77005 1''] [])"
    by (simp add: ex p)
  from shutdown_release [of "answered [] [''77000'']" _ _ "Fulfilled ERROR" "answered [''77005 1''] []"] b
  have c: "port (answered [''77005 1''] []) = Some (SerialPort ''COM4'') \<and>
    wire (answered [''77005 1''] []) = [''77005 1'' @ [CHR 0x0D]]"
    by (simp add: answered_def)
  from a b c show ?thesis by simp
qed

subsection \<open>C7: the intensity stays in range\<close>

text \<open>
  C7. The session state starts as shutter closed, intensity 0. In every world the program
  can reach through \<open>handleRequest\<close> the intensity is between 0 and 255: the parser only
  yields \<open>TL_INTENSITY\<close> with a level in that range, while the setters of the store write
  whatever they are given.
\<close>

theorem intensity_in_range:
  "state (startup faults lines) = \<lparr>shutterOpen = False, intensity = 0\<rparr> \<and>
   (reachable w \<longrightarrow> 0 \<le> intensity (state w) \<and> intensity (state w) \<le> 255) \<and>
   (parseCommand d = Parsed (TL_INTENSITY n) \<longrightarrow> 0 \<le> n \<and> n \<le> 255) \<and>
   state (store_setIntensity lvl v) = (state v)\<lparr>intensity := lvl\<rparr> \<and>
   state (store_setShutter st v) = (state v)\<lparr>shutterOpen := st\<rparr>"
proof -
  have inv: "0 \<le> intensity (state w) \<and> intensity (state w) \<le> 255" if "reachable w"
    using that
  proof induction
    case (boot faults lines)
    show ?case by (simp add: startup_def initial_state_def)
  next
    case (request w d s w')
    from handleRequest_intensity [OF request.hyps(2) request.IH] show ?case .
  next
    case (device w q faults lines)
    then show ?case by simp
  qed
  have a: "state (startup faults lines) = \<lparr>shutterOpen = False, intensity = 0\<rparr>"
    by (simp add: startup_def initial_state_def)
  have b: "reachable w \<longrightarrow> 0 \<le> intensity (state w) \<and> intensity (state w) \<le> 255"
    using inv by blast
  have c: "parseCommand d = Parsed (TL_INTENSITY n) \<longrightarrow> 0 \<le> n \<and> n \<le> 255"
    using parseCommand_level by blast
  have d: "state (store_setIntensity lvl v) = (state v)\<lparr>intensity := lvl\<rparr>"
    by (simp add: store_setIntensity_def)
  have e: "state (store_setShutter st v) = (state v)\<lparr>shutterOpen := st\<rparr>"
    by (simp add: store_setShutter_def)
  from a b c d e show ?thesis by (intro conjI)
qed


theorem intensity_in_range_witness:
  "reachable ((startup [] [])\<lparr>state := \<lparr>shutterOpen = False, intensity = 100\<rparr>\<rparr>) \<and>
   0 \<le> intensity (state ((startup [] [])\<lparr>state := \<lparr>shutterOpen = False, intensity = 100\<rparr>\<rparr>)) \<and>
   intensity (state ((startup [] [])\<lparr>state := \<lparr>shutterOpen = False, intensity = 100\<rparr>\<rparr>)) \<le> 255 \<and>
   parseCommand (''TL_INTENSITY 100'' @ [CHR 0x0A]) = Parsed (TL_INTENSITY 100)"
proof -
  let ?w = "(startup [] [])\<lparr>state := \<lparr>shutterOpen = False, intensity = 100\<rparr>\<rparr>"
  have p: "parseCommand (''TL_INTENSITY 100'' @ [CHR 0x0A]) = Parsed (TL_INTENSITY 100)"
    by (simp add: parseCommand_def endsWith_def trim_def isWhiteSpace_def parseInt_def
        isDigit_def mathInt_def digitVal_def)
  have "handleRequest (''TL_INTENSITY 100'' @ [CHR 0x0A]) (startup [] []) =
      Some (Rejected PortUninitialized, ?w)"
    unfolding handleRequest_def p by (simp add: run_simps)
  with reachable.boot [of "[]" "[]"] have r: "reachable ?w"
    by (rule reachable.request)
  from intensity_in_range [of _ _ ?w] r
  have "0 \<le> intensity (state ?w) \<and> intensity (state ?w) \<le> 255" by blast
  with r p show ?thesis by (intro conjI) blast+
qed

subsection \<open>C8: lines without a newline, SHUTTER_OPEN, unknown prefixes\<close>

text \<open>
  C8. A line that does not end in a line feed gives \<open>ERROR\<close>. A line that does, and whose
  pieces (the trimmed line split at spaces) are \<open>SHUTTER_OPEN\<close> and its arguments, gives
  state false for the one argument \<open>0\<close>, state true for the one argument \<open>1\<close>, and \<open>ERROR\<close>
  for any other argument and any other number of arguments; so does the line
  \<open>SHUTTER_OPEN\<close>, one space, an argument free of white space, line feed. A first piece
  that is none of the four prefixes gives \<open>ERROR\<close>.
\<close>

theorem parseCommand_shutter:
  "(\<not> endsWith t (CHR 0x0A) \<longrightarrow> parseCommand t = PARSE_ERROR) \<and>
   (endsWith t (CHR 0x0A) \<and> split (trim t) = ''SHUTTER_OPEN'' # args \<longrightarrow>
      parseCommand t =
        (if args = [''0''] then Parsed (SHUTTER_OPEN False)
         else if args = [''1''] then Parsed (SHUTTER_OPEN True)
         else PARSE_ERROR)) \<and>
   ((\<forall>c\<in>set arg. \<not> isWhiteSpace c) \<longrightarrow>
      parseCommand (''SHUTTER_OPEN '' @ arg @ [CHR 0x0A]) =
        (if arg = ''0'' then Parsed (SHUTTER_OPEN False)
         else if arg = ''1'' then Parsed (SHUTTER_OPEN True)
         else PARSE_ERROR)) \<and>
   (endsWith t (CHR 0x0A) \<and> split (trim t) = p # args \<and>
    p \<notin> {''SHUTDOWN'', ''INITIALIZE'', ''TL_INTENSITY'', ''SHUTTER_OPEN''} \<longrightarrow>
      parseCommand t = PARSE_ERROR)"
proof -
  have a: "\<not> endsWith t (CHR 0x0A) \<longrightarrow> parseCommand t = PARSE_ERROR"
    by (simp add: parseCommand_no_newline)
  have b: "endsWith t (CHR 0x0A) \<and> split (trim t) = ''SHUTTER_OPEN'' # args \<longrightarrow>
      parseCommand t =
        (if args = [''0''] then Parsed (SHUTTER_OPEN False)
         else if args = [''1''] then Parsed (SHUTTER_OPEN True)
         else PARSE_ERROR)"
  proof (intro impI; elim conjE)
    assume e: "endsWith t (CHR 0x0A)" and s: "split (trim t) = ''SHUTTER_OPEN'' # args"
    show "parseCommand t =
        (if args = [''0''] then Parsed (SHUTTER_OPEN False)
         else if args = [''1''] then Parsed (SHUTTER_OPEN True)
         else PARSE_ERROR)"
    proof (cases args)
      case Nil
      then show ?thesis by (simp add: parseCommand_tokens [OF e s])
    next
      case (Cons x xs)
      then show ?thesis by (cases xs) (simp_all add: parseCommand_tokens [OF e s])
    qed
  qed
  have c: "(\<forall>c\<in>set arg. \<not> isWhiteSpace c) \<longrightarrow>
      parseCommand (''SHUTTER_OPEN '' @ arg @ [CHR 0x0A]) =
        (if arg = ''0'' then Parsed (SHUTTER_OPEN False)
         else if arg = ''1'' then Parsed (SHUTTER_OPEN True)
         else PARSE_ERROR)"
  proof
    assume n: "\<forall>c\<in>set arg. \<not> isWhiteSpace c"
    from shutter_line [OF n]
    have e: "endsWith (''SHUTTER_OPEN '' @ arg @ [CHR 0x0A]) (CHR 0x0A)"
      and s: "split (trim (''SHUTTER_OPEN '' @ arg @ [CHR 0x0A])) =
        ''SHUTTER_OPEN'' # (if arg = [] then [] else [arg])"
      by (simp_all split: if_splits)
    show "parseCommand (''SHUTTER_OPEN '' @ arg @ [CHR 0x0A]) =
        (if arg = ''0'' then Parsed (SHUTTER_OPEN False)
         else if arg = ''1'' then Parsed (SHUTTER_OPEN True)
         else PARSE_ERROR)"
      using parseCommand_tokens [OF e s] by (cases "arg = []") simp_all
  qed
  have d: "endsWith t (CHR 0x0A) \<and> split (trim t) = p # args \<and>
    p \<notin> {''SHUTDOWN'', ''INITIALIZE'', ''TL_INTENSITY'', ''SHUTTER_OPEN''} \<longrightarrow>
      parseCommand t = PARSE_ERROR"
  proof (intro impI; elim conjE)
    assume e: "endsWith t (CHR 0x0A)" and s: "split (trim t) = p # args"
      and u: "p \<notin> {''SHUTDOWN'', ''INITIALIZE'', ''TL_INTENSITY'', ''SHUTTER_OPEN''}"
    from u have "p \<noteq> ''SHUTDOWN''" "p \<noteq> ''INITIALIZE''" "p \<noteq> ''TL_INTENSITY''"
      "p \<noteq> ''SHUTTER_OPEN''" by blast+
    then show "parseCommand t = PARSE_ERROR"
      by (simp add: parseCommand_tokens [OF e s])
  qed
  from a b c d show ?thesis by (intro conjI)
qed


theorem parseCommand_shutter_witness:
  "parseCommand ''SHUTTER_OPEN 1'' = PARSE_ERROR \<and>
   parseCommand (''SHUTTER_OPEN '' @ ''0'' @ [CHR 0x0A]) = Parsed (SHUTTER_OPEN False) \<and>
   parseCommand (''SHUTTER_OPEN '' @ ''1'' @ [CHR 0x0A]) = Parsed (SHUTTER_OPEN True) \<and>
   parseCommand (''SHUTTER_OPEN '' @ ''01'' @ [CHR 0x0A]) = PARSE_ERROR \<and>
   parseCommand (''SHUTTER_OPEN 0 1'' @ [CHR 0x0A]) = PARSE_ERROR \<and>
   parseCommand (''SHUTTER_OPEN'' @ [CHR 0x0A]) = PARSE_ERROR \<and>
   parseCommand (''OPEN_SHUTTER 1'' @ [CHR 0x0A]) = PARSE_ERROR"
proof -
  note ev = endsWith_def trim_def isWhiteSpace_def
  have 1: "parseCommand ''SHUTTER_OPEN 1'' = PARSE_ERROR"
    using parseCommand_shutter [where t = "''SHUTTER_OPEN 1''"] by (simp add: ev)
  have 2: "parseCommand (''SHUTTER_OPEN '' @ ''0'' @ [CHR 0x0A]) = Parsed (SHUTTER_OPEN False)"
    using parseCommand_shutter [where arg = "''0''"] by (simp add: ev)
  have 3: "parseCommand (''SHUTTER_OPEN '' @ ''1'' @ [CHR 0x0A]) = Parsed (SHUTTER_OPEN True)"
    using parseCommand_shutter [where arg = "''1''"] by (simp add: ev)
  have 4: "parseCommand (''SHUTTER_OPEN '' @ ''01'' @ [CHR 0x0A]) = PARSE_ERROR"
    using parseCommand_shutter [where arg = "''01''"] by (simp add: ev)
  have 5: "parseCommand (''SHUTTER_OPEN 0 1'' @ [CHR 0x0A]) = PARSE_ERROR"
    using parseCommand_shutter [where t = "''SHUTTER_OPEN 0 1'' @ [CHR 0x0A]"
        and args = "[''0'', ''1'']"] by (simp add: ev)
  have 6: "parseCommand (''SHUTTER_OPEN'' @ [CHR 0x0A]) = PARSE_ERROR"
    using parseCommand_shutter [where t = "''SHUTTER_OPEN'' @ [CHR 0x0A]" and args = "[]"]
    by (simp add: ev)
  have 7: "parseCommand (''OPEN_SHUTTER 1'' @ [CHR 0x0A]) = PARSE_ERROR"
    using parseCommand_shutter [where t = "''OPEN_SHUTTER 1'' @ [CHR 0x0A]"
        and p = "''OPEN_SHUTTER''" and args = "[''1'']"] by (simp add: ev)
  from 1 2 3 4 5 6 7 show ?thesis by (intro conjI)
qed

subsection \<open>C9: the timeout of the response waiter\<close>

text \<open>
  C9. The claim wants the waiter to fail with a timeout error when no line arrives within
  the budget. With a port open on a silent device, an exchange sets 100 timers of 10 ms;
  then the innermost call of \<open>waitForResponse\<close> throws the timeout, no handler receives it,
  and the promise of the exchange stays pending: the exchange neither fails nor returns.
  (A waiting line is returned at once, see \<open>waitForResponse_ready\<close>; each poll sets one
  timer of the interval and takes the interval off the budget, see \<open>waitForResponse_poll\<close>.)
\<close>

theorem timeout_never_reported:
  "writeToPort ''77025 0'' (answered [] []) =
     Some (Pending,
       (answered [''77025 0''] [])\<lparr>timers := replicate 100 10, unhandled := [Timeout]\<rparr>)"
proof -
  let ?w = "(answered [''77025 0''] [])"
  have "waitForResponse 1000 10 ?w =
      Some (Pending, ?w\<lparr>timers := timers ?w @ replicate (Suc 99) 10,
                          incoming := drop (Suc 99) (incoming ?w),
                          unhandled := unhandled ?w @ [Timeout]\<rparr>)"
    by (rule waitForResponse_silent) (simp_all add: answered_def)
  then have "waitForResponse 1000 10 ?w =
      Some (Pending, ?w\<lparr>timers := replicate 100 10, unhandled := [Timeout]\<rparr>)"
    by (simp add: answered_def)
  moreover have "port_write (''77025 0'' @ [CHR 0x0D]) (answered [] []) = (None, ?w)"
    by (simp add: port_write_def deliver_def answered_def)
  ultimately show ?thesis
    by (simp add: writeToPort_def answered_def)
qed

subsection \<open>C10: a successful INITIALIZE is six exchanges\<close>

text \<open>
  C10. Whenever the command \<open>INITIALIZE\<close> ends with \<open>OK\<close>, the wire has gained six lines: the
  four of \<open>initialize\<close>, the sync line written by \<open>initialize\<close> itself, and the same sync
  line once more, written by the executor after the \<open>switch\<close>. The session state is
  unchanged.
\<close>

theorem initialize_six_exchanges:
  "executeCommand INITIALIZE w = Some (Fulfilled OK, w') \<Longrightarrow>
     wire w' = wire w @ map (\<lambda>l. l @ [CHR 0x0D])
       [''77025 0'', ''77005 0'', ''77020 0 0'', ''77032 0 1'',
        syncLine (state w), syncLine (state w)] \<and>
     length (wire w') = length (wire w) + 6 \<and> state w' = state w"
proof -
  assume a: "executeCommand INITIALIZE w = Some (Fulfilled OK, w')"
  then obtain r w1 where i: "initialize w = Some (Fulfilled r, w1)"
    and s: "sync_after r w1 = Some (Fulfilled OK, w')"
    by (auto simp: await_Some)
  from s obtain sr where sy: "syncMicroscopeToState w1 = Some (Fulfilled sr, w')"
    and res: "(if sr = ERROR then sr else r) = OK"
    by (auto simp: sync_after_def await_Some resolve_def)
  from res have "r = OK" by (auto split: if_splits)
  with i have i': "initialize w = Some (Fulfilled OK, w1)" by simp
  have p: "port w1 \<noteq> None"
  proof
    assume "port w1 = None"
    with sy show False
      by (auto simp: sync_as_exchange await_Some writeToPort_def reject_def)
  qed
  from initialize_OK [OF i'] sync_frame [OF sy] p show ?thesis by simp
qed

theorem initialize_six_exchanges_witness:
  "executeCommand INITIALIZE
     (startup [] (map (\<lambda>e. [e]) [''77025'', ''77005'', ''77020'', ''77032'', ''77020'', ''77020''])) =
     Some (Fulfilled OK,
       answered [''77025 0'', ''77005 0'', ''77020 0 0'', ''77032 0 1'', ''77020 0 0'', ''77020 0 0''] []) \<and>
   wire (answered [''77025 0'', ''77005 0'', ''77020 0 0'', ''77032 0 1'', ''77020 0 0'', ''77020 0 0''] []) =
     map (\<lambda>l. l @ [CHR 0x0D])
       [''77025 0'', ''77005 0'', ''77020 0 0'', ''77032 0 1'', ''77020 0 0'', ''77020 0 0''] \<and>
   length (wire (answered [''77025 0'', ''77005 0'', ''77020 0 0'', ''77032 0 1'', ''77020 0 0'', ''77020 0 0''] [])) = 6"
proof -
  have run: "executeCommand INITIALIZE
     (startup [] (map (\<lambda>e. [e]) [''77025'', ''77005'', ''77020'', ''77032'', ''77020'', ''77020''])) =
     Some (Fulfilled OK,
       answered [''77025 0'', ''77005 0'', ''77020 0 0'', ''77032 0 1'', ''77020 0 0'', ''77020 0 0''] [])"
    by (simp add: run_simps answered_def)
  have st: "syncLine (state (startup [] ls)) = ''77020 0 0''" "wire (startup [] ls) = []" for ls
    by (simp_all add: syncLine_def startup_def initial_state_def)
  from initialize_six_exchanges [OF run] run show ?thesis
    by (simp add: st)
qed

end
